theory Spec2Isabelle
  imports Main
begin

section \<open>Squad Bot: the orchestration engine\<close>

text \<open>
  A shallow embedding of the multi-squad engine, \<^verbatim>\<open>src/squad-server/database.py\<close> and
  \<^verbatim>\<open>src/squad-server/orchestrator.py\<close>. The single-squad files \<^verbatim>\<open>src/database.py\<close>
  and \<^verbatim>\<open>src/orchestrator.py\<close> hold the same functions without the \<^verbatim>\<open>squad_id\<close>
  argument and column (and with an emoji in front of the announcement texts).

  \<^item> A table is the list of its rows in rowid order. \<^verbatim>\<open>INSERT\<close> appends and raises
    \<^verbatim>\<open>sqlite3.IntegrityError\<close> when the primary key is taken; \<^verbatim>\<open>INSERT OR REPLACE\<close>
    deletes the rows that conflict and appends; \<^verbatim>\<open>fetchone\<close> is the first matching row.
  \<^item> What \<^verbatim>\<open>uuid.uuid4()\<close> and \<^verbatim>\<open>datetime.now()\<close> return is an input of the call: a
    \<open>stamp\<close> is the id and the time a constructor draws.
  \<^item> An engine call returns its outcome and the state it leaves: every statement commits,
    so an exception leaves the writes made before it.
  \<^item> \<^verbatim>\<open>_broadcast\<close> appends the event to a log; the listeners and the webhook manager are
    callbacks whose exceptions it swallows, and the time of the event is not kept.
\<close>

subsection \<open>Rows (models.py, and the columns of database.py)\<close>

type_synonym stamp = "string \<times> string"

record squad =
  sq_id :: string
  sq_name :: string
  sq_consensus_mode :: string
  session_ttl_hours :: int
  fingerprint_mode :: string
  sq_created_at :: string
  sq_created_by :: string
  sq_is_active :: bool

record squad_member =
  m_id :: string
  m_name :: string
  m_model :: string
  m_joined_at :: string
  m_is_active :: bool
  m_user_id :: "string option"
  m_squad_id :: string

record message =
  msg_id :: string
  sender_id :: string
  sender_name :: string
  sender_type :: string
  msg_content :: string
  msg_timestamp :: string
  reply_to :: "string option"
  msg_squad_id :: string

record context_entry =
  ce_id :: string
  ce_content :: string
  committed_at :: string
  committed_by :: string
  ce_origin :: string
  ce_commit_id :: string
  ce_version :: int
  ce_squad_id :: string

record commit_proposal =
  cp_id :: string
  cp_content :: string
  proposed_by :: string
  proposed_by_name :: string
  cp_origin :: string
  cp_status :: string
  created_at :: string
  resolved_at :: "string option"
  cp_consensus_mode :: string
  timeout_seconds :: int
  cp_squad_id :: string

record vote_rec =
  v_id :: string
  v_commit_id :: string
  voter_id :: string
  voter_name :: string
  choice :: string
  is_human_override :: bool
  voted_at :: string
  v_squad_id :: string

record member_role =
  r_id :: string
  r_squad_id :: string
  r_member_id :: string
  role :: string
  granted_at :: string
  granted_by :: "string option"

record security_log_entry =
  sl_id :: string
  sl_squad_id :: "string option"
  sl_event_type :: string
  sl_member_id :: "string option"
  sl_details :: "string option"
  sl_ip_address :: "string option"
  sl_user_agent :: "string option"
  sl_timestamp :: string

text \<open>
  The keyword arguments of \<^verbatim>\<open>update_squad_settings\<close> and \<^verbatim>\<open>update_squad\<close>: one optional
  field for each key either function knows, and the list of the other keys.
\<close>

record settings =
  set_name :: "string option"
  set_consensus_mode :: "string option"
  set_session_ttl_hours :: "int option"
  set_fingerprint_mode :: "string option"
  set_is_active :: "bool option"
  set_other :: "string list"

datatype py_error = IntegrityError | AttributeError

subsection \<open>The database (database.py)\<close>

record database =
  squads :: "squad list"
  members :: "squad_member list"
  messages :: "message list"
  context_entries :: "context_entry list"
  commit_proposals :: "commit_proposal list"
  votes :: "vote_rec list"
  member_roles :: "member_role list"
  security_log :: "security_log_entry list"

definition get_squad :: "string \<Rightarrow> 'a database_scheme \<Rightarrow> squad option" where
  "get_squad squad_id d = find (\<lambda>r. sq_id r = squad_id) (squads d)"

definition no_updates :: "settings \<Rightarrow> bool" where
  "no_updates u \<longleftrightarrow> set_name u = None \<and> set_consensus_mode u = None \<and>
     set_session_ttl_hours u = None \<and> set_fingerprint_mode u = None \<and> set_is_active u = None"

definition apply_updates :: "settings \<Rightarrow> squad \<Rightarrow> squad" where
  "apply_updates u r = r
     \<lparr>sq_name := (case set_name u of None \<Rightarrow> sq_name r | Some v \<Rightarrow> v),
      sq_consensus_mode := (case set_consensus_mode u of None \<Rightarrow> sq_consensus_mode r | Some v \<Rightarrow> v),
      session_ttl_hours := (case set_session_ttl_hours u of None \<Rightarrow> session_ttl_hours r | Some v \<Rightarrow> v),
      fingerprint_mode := (case set_fingerprint_mode u of None \<Rightarrow> fingerprint_mode r | Some v \<Rightarrow> v),
      sq_is_active := (case set_is_active u of None \<Rightarrow> sq_is_active r | Some v \<Rightarrow> v)\<rparr>"

text \<open>\<^verbatim>\<open>update_squad\<close>: the keys outside its \<^verbatim>\<open>allowed\<close> set are dropped; the result is
  \<^verbatim>\<open>cursor.rowcount > 0\<close>.\<close>

definition update_squad :: "string \<Rightarrow> settings \<Rightarrow> 'a database_scheme \<Rightarrow> bool \<times> 'a database_scheme" where
  "update_squad squad_id kwargs d =
     (let updates = kwargs\<lparr>set_other := []\<rparr> in
      if no_updates updates then (False, d)
      else (\<exists>r \<in> set (squads d). sq_id r = squad_id,
            d\<lparr>squads := map (\<lambda>r. if sq_id r = squad_id then apply_updates updates r else r) (squads d)\<rparr>))"

definition get_member_role :: "string \<Rightarrow> string \<Rightarrow> 'a database_scheme \<Rightarrow> member_role option" where
  "get_member_role squad_id member_id d =
     find (\<lambda>r. r_squad_id r = squad_id \<and> r_member_id r = member_id) (member_roles d)"

definition is_admin :: "string \<Rightarrow> string \<Rightarrow> 'a database_scheme \<Rightarrow> bool" where
  "is_admin squad_id member_id d =
     (case get_member_role squad_id member_id d of None \<Rightarrow> False | Some r \<Rightarrow> role r = ''admin'')"

definition log_security_event ::
  "string \<Rightarrow> string option \<Rightarrow> string option \<Rightarrow> string option \<Rightarrow> stamp \<Rightarrow> 'a database_scheme
   \<Rightarrow> py_error + 'a database_scheme" where
  "log_security_event event_type squad_id member_id details st d =
     (if fst st \<in> sl_id ` set (security_log d) then Inl IntegrityError
      else Inr (d\<lparr>security_log := security_log d @
        [\<lparr>sl_id = fst st, sl_squad_id = squad_id, sl_event_type = event_type,
          sl_member_id = member_id, sl_details = details, sl_ip_address = None,
          sl_user_agent = None, sl_timestamp = snd st\<rparr>]\<rparr>))"

definition add_member :: "squad_member \<Rightarrow> string \<Rightarrow> 'a database_scheme \<Rightarrow> 'a database_scheme" where
  "add_member member squad_id d =
     d\<lparr>members := filter (\<lambda>r. m_id r \<noteq> m_id member) (members d) @
        [member\<lparr>m_is_active := True, m_squad_id := squad_id\<rparr>]\<rparr>"

definition remove_member :: "string \<Rightarrow> string \<Rightarrow> 'a database_scheme \<Rightarrow> 'a database_scheme" where
  "remove_member member_id squad_id d =
     d\<lparr>members := map (\<lambda>r. if m_id r = member_id \<and> m_squad_id r = squad_id
                              then r\<lparr>m_is_active := False\<rparr> else r) (members d)\<rparr>"

definition get_member_by_name :: "string \<Rightarrow> string \<Rightarrow> 'a database_scheme \<Rightarrow> squad_member option" where
  "get_member_by_name name squad_id d =
     find (\<lambda>r. m_name r = name \<and> m_squad_id r = squad_id \<and> m_is_active r) (members d)"

definition get_active_members :: "string \<Rightarrow> 'a database_scheme \<Rightarrow> squad_member list" where
  "get_active_members squad_id d =
     filter (\<lambda>r. m_is_active r \<and> m_squad_id r = squad_id) (members d)"

definition add_message :: "message \<Rightarrow> string \<Rightarrow> 'a database_scheme \<Rightarrow> py_error + 'a database_scheme" where
  "add_message msg squad_id d =
     (if msg_id msg \<in> msg_id ` set (messages d) then Inl IntegrityError
      else Inr (d\<lparr>messages := messages d @ [msg\<lparr>msg_squad_id := squad_id\<rparr>]\<rparr>))"

text \<open>\<^verbatim>\<open>SELECT MAX(version) ... WHERE squad_id = ?\<close>: \<^verbatim>\<open>NULL\<close> when the squad has no entry.\<close>

definition max_version :: "string \<Rightarrow> 'a database_scheme \<Rightarrow> int option" where
  "max_version squad_id d =
     (case filter (\<lambda>r. ce_squad_id r = squad_id) (context_entries d) of
        [] \<Rightarrow> None
      | r # rs \<Rightarrow> Some (fold (\<lambda>x m. max (ce_version x) m) rs (ce_version r)))"

text \<open>\<^verbatim>\<open>row["max_v"] or 0\<close>: \<^verbatim>\<open>None\<close> and \<^verbatim>\<open>0\<close> both give \<^verbatim>\<open>0\<close>.\<close>

definition or_zero :: "int option \<Rightarrow> int" where
  "or_zero v = (case v of None \<Rightarrow> 0 | Some n \<Rightarrow> n)"

definition add_context_entry ::
  "context_entry \<Rightarrow> string \<Rightarrow> 'a database_scheme \<Rightarrow> py_error + (context_entry \<times> 'a database_scheme)" where
  "add_context_entry entry squad_id d =
     (let entry1 = entry\<lparr>ce_version := or_zero (max_version squad_id d) + 1\<rparr> in
      if ce_id entry1 \<in> ce_id ` set (context_entries d) then Inl IntegrityError
      else Inr (entry1\<lparr>ce_squad_id := squad_id\<rparr>,
                d\<lparr>context_entries := context_entries d @ [entry1\<lparr>ce_squad_id := squad_id\<rparr>]\<rparr>))"

text \<open>\<^verbatim>\<open>ORDER BY version ASC\<close>, rows of one version in rowid order.\<close>

definition get_context :: "string \<Rightarrow> 'a database_scheme \<Rightarrow> context_entry list" where
  "get_context squad_id d =
     sort_key ce_version (filter (\<lambda>r. ce_squad_id r = squad_id) (context_entries d))"

definition get_context_version :: "string \<Rightarrow> 'a database_scheme \<Rightarrow> int" where
  "get_context_version squad_id d = or_zero (max_version squad_id d)"

definition add_commit :: "commit_proposal \<Rightarrow> string \<Rightarrow> 'a database_scheme \<Rightarrow> py_error + 'a database_scheme" where
  "add_commit commit squad_id d =
     (if cp_id commit \<in> cp_id ` set (commit_proposals d) then Inl IntegrityError
      else Inr (d\<lparr>commit_proposals := commit_proposals d @ [commit\<lparr>cp_squad_id := squad_id\<rparr>]\<rparr>))"

definition update_commit_status :: "string \<Rightarrow> string \<Rightarrow> string \<Rightarrow> 'a database_scheme \<Rightarrow> 'a database_scheme" where
  "update_commit_status commit_id status resolved d =
     d\<lparr>commit_proposals := map (\<lambda>r. if cp_id r = commit_id
          then r\<lparr>cp_status := status, resolved_at := Some resolved\<rparr> else r) (commit_proposals d)\<rparr>"

definition get_commit :: "string \<Rightarrow> 'a database_scheme \<Rightarrow> commit_proposal option" where
  "get_commit commit_id d = find (\<lambda>r. cp_id r = commit_id) (commit_proposals d)"

text \<open>\<^verbatim>\<open>INSERT OR REPLACE\<close> under \<^verbatim>\<open>PRIMARY KEY(id)\<close> and \<^verbatim>\<open>UNIQUE(commit_id, voter_id)\<close>.\<close>

definition add_vote :: "vote_rec \<Rightarrow> string \<Rightarrow> 'a database_scheme \<Rightarrow> 'a database_scheme" where
  "add_vote v squad_id d =
     d\<lparr>votes := filter (\<lambda>r. v_id r \<noteq> v_id v \<and>
                             \<not> (v_commit_id r = v_commit_id v \<and> voter_id r = voter_id v)) (votes d) @
        [v\<lparr>v_squad_id := squad_id\<rparr>]\<rparr>"

definition get_votes_for_commit :: "string \<Rightarrow> 'a database_scheme \<Rightarrow> vote_rec list" where
  "get_votes_for_commit commit_id d = filter (\<lambda>r. v_commit_id r = commit_id) (votes d)"

subsection \<open>Text\<close>

text \<open>\<^verbatim>\<open>str\<close> of an integer, and \<^verbatim>\<open>', '.join\<close>.\<close>

fun str_nat :: "nat \<Rightarrow> string" where
  "str_nat n = (if n < 10 then [''0123456789'' ! n]
                else str_nat (n div 10) @ [''0123456789'' ! (n mod 10)])"

definition str_int :: "int \<Rightarrow> string" where
  "str_int i = (if i < 0 then ''-'' @ str_nat (nat (- i)) else str_nat (nat i))"

fun join_comma :: "string list \<Rightarrow> string" where
  "join_comma [] = []"
| "join_comma [x] = x"
| "join_comma (x # y # ys) = x @ '', '' @ join_comma (y # ys)"

definition apos :: string where
  "apos = [CHR 0x27]"

definition dquote :: string where
  "dquote = [CHR 0x22]"

definition newline :: string where
  "newline = [CHR 0x0A]"

subsection \<open>The orchestrator (orchestrator.py)\<close>

datatype payload =
    MemberData squad_member
  | MessageData message
  | LeftData string string
  | ProposalData commit_proposal
  | VoteData vote_rec
  | ResolvedData string string
  | EntryData context_entry

record event =
  ev_type :: string
  ev_data :: payload
  ev_squad_id :: string

record orchestrator = database +
  consensus_mode :: string
  events :: "event list"

text \<open>The dictionary \<^verbatim>\<open>_evaluate_consensus\<close> returns: a status with its reason, or the
  progress \<^verbatim>\<open>votes_in\<close>, \<^verbatim>\<open>votes_needed\<close>, \<^verbatim>\<open>approvals\<close>, \<^verbatim>\<open>rejections\<close>.\<close>

datatype consensus_result = Resolved string string | Pending nat nat nat nat

text \<open>What an engine call returns: \<^verbatim>\<open>{"success": False, "error": ...}\<close> or the fields of
  its success dictionary.\<close>

datatype response =
    Failure string
  | Joined squad_member string
  | Left string
  | Sent string string
  | Proposed string string
  | Voted vote_rec consensus_result
  | Updated bool settings

datatype 'a outcome = Raised py_error | Returned 'a

definition broadcast :: "string \<Rightarrow> payload \<Rightarrow> string \<Rightarrow> orchestrator \<Rightarrow> orchestrator" where
  "broadcast event_type data squad_id s =
     s\<lparr>events := events s @ [\<lparr>ev_type = event_type, ev_data = data, ev_squad_id = squad_id\<rparr>]\<rparr>"

definition bot_message :: "stamp \<Rightarrow> string \<Rightarrow> string \<Rightarrow> string \<Rightarrow> message" where
  "bot_message st stype text squad_id =
     \<lparr>msg_id = fst st, sender_id = ''orchestrator'', sender_name = ''Squad Bot'',
      sender_type = stype, msg_content = text, msg_timestamp = snd st, reply_to = None,
      msg_squad_id = squad_id\<rparr>"

definition update_squad_settings ::
  "(settings \<Rightarrow> string) \<Rightarrow> string \<Rightarrow> string \<Rightarrow> settings \<Rightarrow> stamp \<Rightarrow> orchestrator
   \<Rightarrow> response outcome \<times> orchestrator" where
  "update_squad_settings dumps squad_id admin_id kwargs lst s =
     (if \<not> is_admin squad_id admin_id s then (Returned (Failure ''Admin access required''), s)
      else
        let updates = kwargs\<lparr>set_is_active := None, set_other := []\<rparr> in
        if no_updates updates then (Returned (Failure ''No valid settings to update''), s)
        else
          let (success, s1) = update_squad squad_id updates s in
          if success then
            (case log_security_event ''settings_changed'' (Some squad_id) (Some admin_id)
                    (Some (dumps updates)) lst s1 of
               Inl e \<Rightarrow> (Raised e, s1)
             | Inr s2 \<Rightarrow> (Returned (Updated success updates), s2))
          else (Returned (Updated success updates), s1))"

definition join :: "string \<Rightarrow> string \<Rightarrow> string \<Rightarrow> stamp \<Rightarrow> stamp \<Rightarrow> orchestrator
   \<Rightarrow> response outcome \<times> orchestrator" where
  "join name model squad_id mst gst s =
     (let existing = get_member_by_name name squad_id s in
      if (case existing of None \<Rightarrow> False | Some e \<Rightarrow> m_is_active e)
      then (Returned (Failure (apos @ name @ apos @ '' is already in the squad'')), s)
      else
          let member = \<lparr>m_id = fst mst, m_name = name, m_model = model, m_joined_at = snd mst,
                        m_is_active = True, m_user_id = None, m_squad_id = squad_id\<rparr>;
              s1 = add_member member squad_id s;
              sys_msg = bot_message gst ''system''
                (''**'' @ name @ ''** joined the squad (using '' @ model @ '')'') squad_id
          in case add_message sys_msg squad_id s1 of
               Inl e \<Rightarrow> (Raised e, s1)
             | Inr s2 \<Rightarrow>
                 (Returned (Joined member
                    (''Welcome to the squad, '' @ name @ ''! You'' @ apos @ ''re using '' @ model @
                     ''. Use squad_read to see the conversation and squad_context to see canonical context.'')),
                  broadcast ''new_message'' (MessageData sys_msg) squad_id
                    (broadcast ''member_joined'' (MemberData member) squad_id s2)))"

definition leave :: "string \<Rightarrow> string \<Rightarrow> stamp \<Rightarrow> orchestrator \<Rightarrow> response outcome \<times> orchestrator" where
  "leave name squad_id gst s =
     (case get_member_by_name name squad_id s of
        None \<Rightarrow> (Returned (Failure (apos @ name @ apos @ '' is not in the squad'')), s)
      | Some member \<Rightarrow>
          let s1 = remove_member (m_id member) squad_id s;
              sys_msg = bot_message gst ''system'' (''**'' @ name @ ''** left the squad'') squad_id
          in case add_message sys_msg squad_id s1 of
               Inl e \<Rightarrow> (Raised e, s1)
             | Inr s2 \<Rightarrow>
                 (Returned (Left (name @ '' has left the squad'')),
                  broadcast ''new_message'' (MessageData sys_msg) squad_id
                    (broadcast ''member_left'' (LeftData name (m_id member)) squad_id s2)))"

definition send_message ::
  "string \<Rightarrow> string \<Rightarrow> string \<Rightarrow> string option \<Rightarrow> string \<Rightarrow> stamp \<Rightarrow> orchestrator
   \<Rightarrow> response outcome \<times> orchestrator" where
  "send_message sender content stype reply squad_id gst s =
     (case get_member_by_name sender squad_id s of
        None \<Rightarrow> (Returned (Failure (apos @ sender @ apos @ '' is not in the squad. Join first.'')), s)
      | Some member \<Rightarrow>
          let msg = \<lparr>msg_id = fst gst, sender_id = m_id member, sender_name = sender,
                     sender_type = stype, msg_content = content, msg_timestamp = snd gst,
                     reply_to = reply, msg_squad_id = squad_id\<rparr>
          in case add_message msg squad_id s of
               Inl e \<Rightarrow> (Raised e, s)
             | Inr s1 \<Rightarrow>
                 (Returned (Sent (msg_id msg) (msg_timestamp msg)),
                  broadcast ''new_message'' (MessageData msg) squad_id s1))"

definition propose_commit ::
  "string \<Rightarrow> string \<Rightarrow> string \<Rightarrow> string \<Rightarrow> stamp \<Rightarrow> stamp \<Rightarrow> orchestrator
   \<Rightarrow> response outcome \<times> orchestrator" where
  "propose_commit proposer_name content origin squad_id pst gst s =
     (let member = get_member_by_name proposer_name squad_id s in
      if member = None \<and> origin \<noteq> ''orchestrator_detected''
      then (Returned (Failure (apos @ proposer_name @ apos @ '' is not in the squad'')), s)
      else
        let proposal =
              \<lparr>cp_id = fst pst, cp_content = content,
               proposed_by = (case member of Some m \<Rightarrow> m_id m | None \<Rightarrow> ''orchestrator''),
               proposed_by_name = (case member of Some m \<Rightarrow> proposer_name | None \<Rightarrow> ''Squad Bot''),
               cp_origin = origin, cp_status = ''pending'', created_at = snd pst,
               resolved_at = None, cp_consensus_mode = consensus_mode s,
               timeout_seconds = 300, cp_squad_id = squad_id\<rparr>
        in case add_commit proposal squad_id s of
             Inl e \<Rightarrow> (Raised e, s)
           | Inr s1 \<Rightarrow>
               let how_to_vote = ''Vote with `squad_vote(commit_id='' @ apos @ cp_id proposal @ apos @
                       '', choice='' @ apos @ ''approve'' @ apos @ '')` or `'' @ apos @ ''reject'' @
                       apos @ ''`'';
                   announcement =
                     (if origin = ''agent_nominated''
                      then ''**'' @ proposer_name @ ''** proposes to commit: '' @ dquote @ content @
                           dquote @ newline @ newline @ how_to_vote
                      else ''**Squad Bot** detected convergence: '' @ dquote @ content @
                           dquote @ newline @ newline @ how_to_vote);
                   sys_msg = bot_message gst ''orchestrator'' announcement squad_id
               in case add_message sys_msg squad_id s1 of
                    Inl e \<Rightarrow> (Raised e, s1)
                  | Inr s2 \<Rightarrow>
                      (Returned (Proposed (cp_id proposal)
                         (''Commit proposed (ID: '' @ cp_id proposal @
                          ''). Awaiting votes from squad members.'')),
                       broadcast ''commit_proposed'' (ProposalData proposal) squad_id
                         (broadcast ''new_message'' (MessageData sys_msg) squad_id s2)))"

text \<open>\<^verbatim>\<open>_resolve_commit\<close>; \<open>now\<close> is the time it reads for \<^verbatim>\<open>resolved_at\<close>.\<close>

definition resolve_commit ::
  "string \<Rightarrow> string \<Rightarrow> string \<Rightarrow> string \<Rightarrow> string \<Rightarrow> stamp \<Rightarrow> orchestrator
   \<Rightarrow> unit outcome \<times> orchestrator" where
  "resolve_commit commit_id status announcement squad_id now rst s =
     (let s1 = update_commit_status commit_id status now s;
          sys_msg = bot_message rst ''orchestrator'' announcement squad_id
      in case add_message sys_msg squad_id s1 of
           Inl e \<Rightarrow> (Raised e, s1)
         | Inr s2 \<Rightarrow>
             (Returned (),
              broadcast ''commit_resolved'' (ResolvedData commit_id status) squad_id
                (broadcast ''new_message'' (MessageData sys_msg) squad_id s2)))"

text \<open>\<^verbatim>\<open>_commit_to_context\<close>.\<close>

definition commit_to_context ::
  "commit_proposal \<Rightarrow> string \<Rightarrow> stamp \<Rightarrow> string \<Rightarrow> stamp \<Rightarrow> orchestrator
   \<Rightarrow> unit outcome \<times> orchestrator" where
  "commit_to_context proposal squad_id est now rst s =
     (let entry = \<lparr>ce_id = fst est, ce_content = cp_content proposal, committed_at = snd est,
                   committed_by = proposed_by_name proposal, ce_origin = cp_origin proposal,
                   ce_commit_id = cp_id proposal, ce_version = 0, ce_squad_id = squad_id\<rparr>
      in case add_context_entry entry squad_id s of
           Inl e \<Rightarrow> (Raised e, s)
         | Inr (entry1, s1) \<Rightarrow>
             (case resolve_commit (cp_id proposal) ''approved''
                     (''Committed to context (v'' @ str_int (ce_version entry1) @ ''): '' @
                      dquote @ cp_content proposal @ dquote) squad_id now rst s1 of
                (Raised e, s2) \<Rightarrow> (Raised e, s2)
              | (Returned u, s2) \<Rightarrow>
                  (Returned (), broadcast ''context_updated'' (EntryData entry1) squad_id s2)))"

text \<open>A result returned after a call that may have raised.\<close>

definition returning :: "'b \<Rightarrow> unit outcome \<times> orchestrator \<Rightarrow> 'b outcome \<times> orchestrator" where
  "returning r x = (case x of (Raised e, s) \<Rightarrow> (Raised e, s) | (Returned u, s) \<Rightarrow> (Returned r, s))"

text \<open>\<^verbatim>\<open>_evaluate_consensus\<close>. \<^verbatim>\<open>approvals > total_eligible / 2\<close> compares an integer with
  an exact half, that is \<open>total_eligible < 2 * approvals\<close>. When no row has the id,
  \<^verbatim>\<open>proposal\<close> is \<^verbatim>\<open>None\<close> and reading its \<^verbatim>\<open>consensus_mode\<close> raises.\<close>

definition evaluate_consensus ::
  "string \<Rightarrow> string \<Rightarrow> stamp \<Rightarrow> string \<Rightarrow> stamp \<Rightarrow> orchestrator
   \<Rightarrow> consensus_result outcome \<times> orchestrator" where
  "evaluate_consensus commit_id squad_id est now rst s =
     (let proposal = get_commit commit_id s;
          vs = get_votes_for_commit commit_id s;
          active_members = get_active_members squad_id s;
          total_eligible = length active_members;
          total_voted = length vs;
          approvals = length (filter (\<lambda>v. choice v = ''approve'') vs);
          rejections = length (filter (\<lambda>v. choice v = ''reject'') vs);
          human_rejections = filter (\<lambda>v. choice v = ''reject'' \<and> is_human_override v) vs
      in
      if human_rejections \<noteq> [] then
        returning (Resolved ''rejected'' ''human_veto'')
          (resolve_commit commit_id ''rejected''
             (''Commit `'' @ commit_id @ ''` **rejected** - human veto by '' @
              join_comma (map voter_name human_rejections)) squad_id now rst s)
      else
        case proposal of
          None \<Rightarrow> (Raised AttributeError, s)
        | Some p \<Rightarrow>
            let mode = cp_consensus_mode p;
                pending = (Returned (Pending total_voted total_eligible approvals rejections), s)
            in
            if mode = ''unanimous'' then
              if rejections > 0 then
                returning (Resolved ''rejected'' ''not_unanimous'')
                  (resolve_commit commit_id ''rejected''
                     (''Commit `'' @ commit_id @ ''` **rejected** (unanimous required, got '' @
                      str_nat rejections @ '' rejection(s))'') squad_id now rst s)
              else if approvals = total_eligible then
                returning (Resolved ''approved'' ''unanimous'')
                  (commit_to_context p squad_id est now rst s)
              else pending
            else if mode = ''majority'' then
              if total_voted \<ge> total_eligible then
                if total_eligible < 2 * approvals then
                  returning (Resolved ''approved''
                      (''majority ('' @ str_nat approvals @ ''/'' @ str_nat total_eligible @ '')''))
                    (commit_to_context p squad_id est now rst s)
                else
                  returning (Resolved ''rejected'' ''no_majority'')
                    (resolve_commit commit_id ''rejected''
                       (''Commit `'' @ commit_id @ ''` **rejected** ('' @ str_nat approvals @ ''/'' @
                        str_nat total_eligible @ '' approved, majority needed)'') squad_id now rst s)
              else if total_eligible < 2 * approvals then
                returning (Resolved ''approved''
                    (''early_majority ('' @ str_nat approvals @ ''/'' @ str_nat total_eligible @ '')''))
                  (commit_to_context p squad_id est now rst s)
              else pending
            else if mode = ''no_objection'' then
              if rejections > 0 then
                returning (Resolved ''rejected'' ''objection_raised'')
                  (resolve_commit commit_id ''rejected''
                     (''Commit `'' @ commit_id @ ''` **rejected** (objection raised)'')
                     squad_id now rst s)
              else pending
            else pending)"

definition vote ::
  "string \<Rightarrow> string \<Rightarrow> string \<Rightarrow> bool \<Rightarrow> string \<Rightarrow> stamp \<Rightarrow> stamp \<Rightarrow> stamp \<Rightarrow> string \<Rightarrow> stamp
   \<Rightarrow> orchestrator \<Rightarrow> response outcome \<times> orchestrator" where
  "vote voter commit_id ch override squad_id vst gst est now rst s =
     (case get_member_by_name voter squad_id s of
        None \<Rightarrow> (Returned (Failure (apos @ voter @ apos @ '' is not in the squad'')), s)
      | Some member \<Rightarrow>
          (case get_commit commit_id s of
             None \<Rightarrow> (Returned (Failure (''Commit '' @ apos @ commit_id @ apos @ '' not found'')), s)
           | Some proposal \<Rightarrow>
               if cp_status proposal \<noteq> ''pending''
               then (Returned (Failure (''Commit '' @ apos @ commit_id @ apos @ '' is already '' @
                                        cp_status proposal)), s)
               else if ch \<notin> {''approve'', ''reject'', ''abstain''}
               then (Returned (Failure (''Choice must be '' @ apos @ ''approve'' @ apos @ '', '' @
                        apos @ ''reject'' @ apos @ '', or '' @ apos @ ''abstain'' @ apos)), s)
               else
                 let v = \<lparr>v_id = fst vst, v_commit_id = commit_id, voter_id = m_id member,
                          voter_name = voter, choice = ch, is_human_override = override,
                          voted_at = snd vst, v_squad_id = squad_id\<rparr>;
                     s1 = add_vote v squad_id s;
                     sys_msg = bot_message gst ''system''
                       (''['' @ (if ch = ''approve'' then ''+'' else if ch = ''reject'' then ''-'' else ''~'') @
                        ''] **'' @ voter @ ''** voted **'' @ ch @ ''** on commit `'' @ commit_id @ ''`'' @
                        (if override then '' (human override)'' else [])) squad_id
                 in case add_message sys_msg squad_id s1 of
                      Inl e \<Rightarrow> (Raised e, s1)
                    | Inr s2 \<Rightarrow>
                        (case evaluate_consensus commit_id squad_id est now rst
                                (broadcast ''vote_cast'' (VoteData v) squad_id
                                   (broadcast ''new_message'' (MessageData sys_msg) squad_id s2)) of
                           (Raised e, s3) \<Rightarrow> (Raised e, s3)
                         | (Returned result, s3) \<Rightarrow> (Returned (Voted v result), s3))))"

text \<open>\<^verbatim>\<open>get_context\<close> of the orchestrator: the version with the entries.\<close>

definition read_context :: "string \<Rightarrow> orchestrator \<Rightarrow> int \<times> context_entry list" where
  "read_context squad_id s = (get_context_version squad_id s, get_context squad_id s)"

text \<open>A freshly opened database with the orchestrator the server builds on it.\<close>

definition new_orchestrator :: "string \<Rightarrow> orchestrator" where
  "new_orchestrator mode =
     \<lparr>squads = [], members = [], messages = [], context_entries = [], commit_proposals = [],
      votes = [], member_roles = [], security_log = [], consensus_mode = mode, events = []\<rparr>"

text \<open>The \<^verbatim>\<open>consensus_mode\<close> entry of \<^verbatim>\<open>get_status\<close>.\<close>

definition status_consensus_mode :: "string \<Rightarrow> orchestrator \<Rightarrow> string" where
  "status_consensus_mode squad_id s =
     (case get_squad squad_id s of Some q \<Rightarrow> sq_consensus_mode q | None \<Rightarrow> consensus_mode s)"

subsection \<open>Example states\<close>

text \<open>Two squads: ann is the only member of squad A, bob the only member of squad B, and
  bob has proposed \<open>p1\<close> in squad B.\<close>

definition two_squads :: orchestrator where
  "two_squads =
     snd (propose_commit ''bob'' ''ship it'' ''agent_nominated'' ''B'' (''p1'', ''t3'') (''g3'', ''t3'')
    (snd (join ''bob'' ''gpt'' ''B'' (''m2'', ''t2'') (''g2'', ''t2'')
    (snd (join ''ann'' ''claude'' ''A'' (''m1'', ''t1'') (''g1'', ''t1'')
      (new_orchestrator ''majority''))))))"

text \<open>What ann's vote on \<open>p1\<close>, cast in squad A, leaves.\<close>

definition after_cross_vote :: orchestrator where
  "after_cross_vote =
     snd (vote ''ann'' ''p1'' ''approve'' False ''A'' (''v1'', ''t4'') (''g4'', ''t4'')
            (''e1'', ''t4'') ''t4'' (''g5'', ''t4'') two_squads)"

text \<open>Squad A, with ann as its member and its admin, under the orchestrator the server
  builds (with the default mode \<^verbatim>\<open>majority\<close>).\<close>

definition squad_A :: orchestrator where
  "squad_A =
     (new_orchestrator ''majority'')
       \<lparr>squads := [\<lparr>sq_id = ''A'', sq_name = ''Alpha'', sq_consensus_mode = ''majority'',
                     session_ttl_hours = 24, fingerprint_mode = ''single_session'',
                     sq_created_at = ''t0'', sq_created_by = [], sq_is_active = True\<rparr>],
        members := [\<lparr>m_id = ''m1'', m_name = ''ann'', m_model = ''web'', m_joined_at = ''t0'',
                      m_is_active = True, m_user_id = None, m_squad_id = ''A''\<rparr>],
        member_roles := [\<lparr>r_id = ''r1'', r_squad_id = ''A'', r_member_id = ''m1'', role = ''admin'',
                           granted_at = ''t0'', granted_by = None\<rparr>]\<rparr>"

definition only_consensus_mode :: "string \<Rightarrow> settings" where
  "only_consensus_mode mode =
     \<lparr>set_name = None, set_consensus_mode = Some mode, set_session_ttl_hours = None,
      set_fingerprint_mode = None, set_is_active = None, set_other = []\<rparr>"

definition squad_A_unanimous :: orchestrator where
  "squad_A_unanimous =
     snd (update_squad_settings (\<lambda>u. ''{}'') ''A'' ''m1'' (only_consensus_mode ''unanimous'')
            (''l1'', ''t1'') squad_A)"

subsection \<open>Observations\<close>

text \<open>The status stored for a commit id, and the tallies \<^verbatim>\<open>_evaluate_consensus\<close> takes of
  the votes stored for it.\<close>

definition status_of :: "string \<Rightarrow> 'a database_scheme \<Rightarrow> string option" where
  "status_of commit_id d = map_option cp_status (get_commit commit_id d)"

definition approvals :: "string \<Rightarrow> 'a database_scheme \<Rightarrow> nat" where
  "approvals commit_id d =
     length (filter (\<lambda>v. choice v = ''approve'') (get_votes_for_commit commit_id d))"

definition rejections :: "string \<Rightarrow> 'a database_scheme \<Rightarrow> nat" where
  "rejections commit_id d =
     length (filter (\<lambda>v. choice v = ''reject'') (get_votes_for_commit commit_id d))"

definition human_rejections :: "string \<Rightarrow> 'a database_scheme \<Rightarrow> vote_rec list" where
  "human_rejections commit_id d =
     filter (\<lambda>v. choice v = ''reject'' \<and> is_human_override v) (get_votes_for_commit commit_id d)"

definition total_voted :: "string \<Rightarrow> 'a database_scheme \<Rightarrow> nat" where
  "total_voted commit_id d = length (get_votes_for_commit commit_id d)"

definition total_eligible :: "string \<Rightarrow> 'a database_scheme \<Rightarrow> nat" where
  "total_eligible squad_id d = length (get_active_members squad_id d)"

text \<open>Every active member of the squad has a vote stored for the commit.\<close>

definition everyone_voted :: "string \<Rightarrow> string \<Rightarrow> 'a database_scheme \<Rightarrow> bool" where
  "everyone_voted squad_id commit_id d \<longleftrightarrow>
     list_all (\<lambda>m. m_id m \<in> voter_id ` set (get_votes_for_commit commit_id d))
       (get_active_members squad_id d)"

text \<open>The consensus result in the answer to a vote.\<close>

definition consensus_of :: "response outcome \<Rightarrow> consensus_result option" where
  "consensus_of r = (case r of Returned (Voted v c) \<Rightarrow> Some c | _ \<Rightarrow> None)"

text \<open>The \<^verbatim>\<open>commit_resolved\<close> and \<^verbatim>\<open>context_updated\<close> events raised for a commit id.\<close>

fun is_resolution_of :: "string \<Rightarrow> event \<Rightarrow> bool" where
  "is_resolution_of commit_id e =
     (ev_type e = ''commit_resolved'' \<and>
      (case ev_data e of ResolvedData c st \<Rightarrow> c = commit_id | _ \<Rightarrow> False))"

definition resolved_events :: "string \<Rightarrow> orchestrator \<Rightarrow> event list" where
  "resolved_events commit_id s = filter (is_resolution_of commit_id) (events s)"

fun is_context_update_of :: "string \<Rightarrow> event \<Rightarrow> bool" where
  "is_context_update_of commit_id e =
     (ev_type e = ''context_updated'' \<and>
      (case ev_data e of EntryData en \<Rightarrow> ce_commit_id en = commit_id | _ \<Rightarrow> False))"

text \<open>The \<^verbatim>\<open>PRIMARY KEY\<close> and \<^verbatim>\<open>UNIQUE\<close> constraints of the five tables of the engine.\<close>

definition table_constraints :: "'a database_scheme \<Rightarrow> bool" where
  "table_constraints d \<longleftrightarrow>
     distinct (map m_id (members d)) \<and> distinct (map msg_id (messages d)) \<and>
     distinct (map ce_id (context_entries d)) \<and> distinct (map cp_id (commit_proposals d)) \<and>
     distinct (map v_id (votes d)) \<and> distinct (map (\<lambda>v. (v_commit_id v, voter_id v)) (votes d))"

subsection \<open>Calls\<close>

text \<open>The engine calls modelled, with what each draws, and a run of calls: the server
  goes on after a call that raised. \<open>dumps\<close> is \<^verbatim>\<open>json.dumps\<close> on the dictionary of the
  changes that \<^verbatim>\<open>update_squad_settings\<close> logs.\<close>

datatype call =
    Join string string string stamp stamp
  | Leave string string stamp
  | SendMessage string string string "string option" string stamp
  | ProposeCommit string string string string stamp stamp
  | Vote string string string bool string stamp stamp stamp string stamp
  | UpdateSquadSettings string string settings stamp

fun perform :: "(settings \<Rightarrow> string) \<Rightarrow> call \<Rightarrow> orchestrator \<Rightarrow> response outcome \<times> orchestrator" where
  "perform dumps (Join name model squad_id mst gst) s = join name model squad_id mst gst s"
| "perform dumps (Leave name squad_id gst) s = leave name squad_id gst s"
| "perform dumps (SendMessage sender content stype reply squad_id gst) s =
     send_message sender content stype reply squad_id gst s"
| "perform dumps (ProposeCommit proposer content origin squad_id pst gst) s =
     propose_commit proposer content origin squad_id pst gst s"
| "perform dumps (Vote voter commit_id ch override squad_id vst gst est now rst) s =
     vote voter commit_id ch override squad_id vst gst est now rst s"
| "perform dumps (UpdateSquadSettings squad_id admin_id kwargs lst) s =
     update_squad_settings dumps squad_id admin_id kwargs lst s"

fun run :: "(settings \<Rightarrow> string) \<Rightarrow> call list \<Rightarrow> orchestrator \<Rightarrow> orchestrator" where
  "run dumps [] s = s"
| "run dumps (c # cs) s = run dumps cs (snd (perform dumps c s))"

text \<open>The row \<^verbatim>\<open>_commit_to_context\<close> inserts for a proposal, and the announcements
  \<^verbatim>\<open>_evaluate_consensus\<close> and \<^verbatim>\<open>_commit_to_context\<close> hand to \<^verbatim>\<open>_resolve_commit\<close>.\<close>

definition committed_entry :: "commit_proposal \<Rightarrow> string \<Rightarrow> stamp \<Rightarrow> 'a database_scheme \<Rightarrow> context_entry" where
  "committed_entry p squad_id est d =
     \<lparr>ce_id = fst est, ce_content = cp_content p, committed_at = snd est,
      committed_by = proposed_by_name p, ce_origin = cp_origin p, ce_commit_id = cp_id p,
      ce_version = or_zero (max_version squad_id d) + 1, ce_squad_id = squad_id\<rparr>"

definition committed_text :: "commit_proposal \<Rightarrow> string \<Rightarrow> 'a database_scheme \<Rightarrow> string" where
  "committed_text p squad_id d =
     ''Committed to context (v'' @ str_int (or_zero (max_version squad_id d) + 1) @ ''): '' @
     dquote @ cp_content p @ dquote"

text \<open>The \<^verbatim>\<open>Vote\<close> object and the announcement \<^verbatim>\<open>vote\<close> builds, and the state in which it
  calls \<^verbatim>\<open>_evaluate_consensus\<close>: the vote and the announcement stored, both events raised.\<close>

definition cast_vote ::
  "string \<Rightarrow> string \<Rightarrow> string \<Rightarrow> bool \<Rightarrow> string \<Rightarrow> stamp \<Rightarrow> squad_member \<Rightarrow> vote_rec" where
  "cast_vote voter commit_id ch override squad_id vst member =
     \<lparr>v_id = fst vst, v_commit_id = commit_id, voter_id = m_id member, voter_name = voter,
      choice = ch, is_human_override = override, voted_at = snd vst, v_squad_id = squad_id\<rparr>"

definition vote_message :: "string \<Rightarrow> string \<Rightarrow> string \<Rightarrow> bool \<Rightarrow> string \<Rightarrow> stamp \<Rightarrow> message" where
  "vote_message voter commit_id ch override squad_id gst =
     bot_message gst ''system''
       (''['' @ (if ch = ''approve'' then ''+'' else if ch = ''reject'' then ''-'' else ''~'') @
        ''] **'' @ voter @ ''** voted **'' @ ch @ ''** on commit `'' @ commit_id @ ''`'' @
        (if override then '' (human override)'' else [])) squad_id"

definition after_cast :: "vote_rec \<Rightarrow> message \<Rightarrow> string \<Rightarrow> orchestrator \<Rightarrow> orchestrator" where
  "after_cast v msg squad_id s =
     broadcast ''vote_cast'' (VoteData v) squad_id
       (broadcast ''new_message'' (MessageData msg) squad_id
          ((add_vote v squad_id s)\<lparr>messages := messages s @ [msg\<lparr>msg_squad_id := squad_id\<rparr>]\<rparr>))"

text \<open>Squad A under an orchestrator built with the mode \<open>unanimous\<close>: ann, bob and cy have
  joined, ann has proposed \<open>p1\<close>, and then ann and bob have voted to approve it.\<close>

definition three_members :: orchestrator where
  "three_members =
     snd (propose_commit ''ann'' ''use tabs'' ''agent_nominated'' ''A'' (''p1'', ''t4'') (''g4'', ''t4'')
    (snd (join ''cy'' ''gemini'' ''A'' (''m3'', ''t3'') (''g3'', ''t3'')
    (snd (join ''bob'' ''gpt'' ''A'' (''m2'', ''t2'') (''g2'', ''t2'')
    (snd (join ''ann'' ''claude'' ''A'' (''m1'', ''t1'') (''g1'', ''t1'')
      (new_orchestrator ''unanimous''))))))))"

definition two_approvals :: orchestrator where
  "two_approvals =
     snd (vote ''bob'' ''p1'' ''approve'' False ''A'' (''v2'', ''t6'') (''g6'', ''t6'')
            (''e2'', ''t6'') ''t6'' (''r2'', ''t6'')
    (snd (vote ''ann'' ''p1'' ''approve'' False ''A'' (''v1'', ''t5'') (''g5'', ''t5'')
            (''e1'', ''t5'') ''t5'' (''r1'', ''t5'') three_members)))"

text \<open>The consensus mode stored for a commit id.\<close>

definition mode_of :: "string \<Rightarrow> 'a database_scheme \<Rightarrow> string option" where
  "mode_of commit_id d = map_option cp_consensus_mode (get_commit commit_id d)"

text \<open>The texts of the two reasons that carry the tally.\<close>

definition tally_text :: "string \<Rightarrow> nat \<Rightarrow> nat \<Rightarrow> string" where
  "tally_text word a n = word @ '' ('' @ str_nat a @ ''/'' @ str_nat n @ '')''"

text \<open>Squad A under an orchestrator built with the mode \<open>majority\<close>: ann, bob, cy and dee
  have joined and ann has proposed \<open>p1\<close>; then ann and bob have approved and cy has
  rejected, which leaves it pending; then dee's rejection is stored.\<close>

definition four_members :: orchestrator where
  "four_members =
     snd (propose_commit ''ann'' ''use tabs'' ''agent_nominated'' ''A'' (''p1'', ''t5'') (''g5'', ''t5'')
    (snd (join ''dee'' ''llama'' ''A'' (''m4'', ''t4'') (''g4'', ''t4'')
    (snd (join ''cy'' ''gemini'' ''A'' (''m3'', ''t3'') (''g3'', ''t3'')
    (snd (join ''bob'' ''gpt'' ''A'' (''m2'', ''t2'') (''g2'', ''t2'')
    (snd (join ''ann'' ''claude'' ''A'' (''m1'', ''t1'') (''g1'', ''t1'')
      (new_orchestrator ''majority''))))))))))"

definition three_of_four :: orchestrator where
  "three_of_four =
     snd (vote ''cy'' ''p1'' ''reject'' False ''A'' (''v3'', ''t8'') (''g8'', ''t8'')
            (''e3'', ''t8'') ''t8'' (''r3'', ''t8'')
    (snd (vote ''bob'' ''p1'' ''approve'' False ''A'' (''v2'', ''t7'') (''g7'', ''t7'')
            (''e2'', ''t7'') ''t7'' (''r2'', ''t7'')
    (snd (vote ''ann'' ''p1'' ''approve'' False ''A'' (''v1'', ''t6'') (''g6'', ''t6'')
            (''e1'', ''t6'') ''t6'' (''r1'', ''t6'') four_members)))))"

definition four_of_four :: orchestrator where
  "four_of_four =
     add_vote (cast_vote ''dee'' ''p1'' ''reject'' False ''A'' (''v4'', ''t9'')
                 \<lparr>m_id = ''m4'', m_name = ''dee'', m_model = ''llama'', m_joined_at = ''t4'',
                  m_is_active = True, m_user_id = None, m_squad_id = ''A''\<rparr>) ''A'' three_of_four"

text \<open>The state \<open>two_approvals\<close> with cy's abstention stored.\<close>

definition two_and_abstain :: orchestrator where
  "two_and_abstain =
     add_vote (cast_vote ''cy'' ''p1'' ''abstain'' False ''A'' (''v3'', ''t7'')
                 \<lparr>m_id = ''m3'', m_name = ''cy'', m_model = ''gemini'', m_joined_at = ''t3'',
                  m_is_active = True, m_user_id = None, m_squad_id = ''A''\<rparr>) ''A'' two_approvals"

section \<open>Properties\<close>

subsection \<open>Squad scoping of a vote\<close>

text \<open>
  C8. Every engine call operates on one squad: a call made with squad id A reads and
  changes only the rows of squad A. The code does not keep this for \<^verbatim>\<open>vote\<close>:
  \<^verbatim>\<open>get_commit\<close>, \<^verbatim>\<open>get_votes_for_commit\<close> and \<^verbatim>\<open>update_commit_status\<close> select by
  commit id alone. In \<open>two_squads\<close> the proposal \<open>p1\<close> is a row of squad B and squad A has
  no entry; ann's vote, cast with squad id A, is counted against the members of squad A,
  resolves the row of squad B and appends its content to the context of squad A.
\<close>

theorem vote_crosses_squads:
  "map (\<lambda>p. (cp_id p, cp_squad_id p, cp_status p, resolved_at p)) (commit_proposals two_squads)
     = [(''p1'', ''B'', ''pending'', None)]
   \<and> get_context ''A'' two_squads = []
   \<and> fst (vote ''ann'' ''p1'' ''approve'' False ''A'' (''v1'', ''t4'') (''g4'', ''t4'')
            (''e1'', ''t4'') ''t4'' (''g5'', ''t4'') two_squads)
     = Returned (Voted \<lparr>v_id = ''v1'', v_commit_id = ''p1'', voter_id = ''m1'',
         voter_name = ''ann'', choice = ''approve'', is_human_override = False,
         voted_at = ''t4'', v_squad_id = ''A''\<rparr> (Resolved ''approved'' ''majority (1/1)''))
   \<and> map (\<lambda>p. (cp_id p, cp_squad_id p, cp_status p, resolved_at p)) (commit_proposals after_cross_vote)
     = [(''p1'', ''B'', ''approved'', Some ''t4'')]
   \<and> map (\<lambda>e. (ce_commit_id e, ce_content e, ce_version e)) (get_context ''A'' after_cross_vote)
     = [(''p1'', ''ship it'', 1)]
   \<and> get_context ''B'' after_cross_vote = []"
  unfolding after_cross_vote_def by code_simp

subsection \<open>The consensus mode a proposal captures\<close>

text \<open>
  C6. \<^verbatim>\<open>propose_commit\<close> stores the squad's current consensus mode and timeout on the
  proposal. The code stores the mode the orchestrator was built with and the constant 300:
  after the admin of squad A has set the squad's mode to \<open>unanimous\<close> (which
  \<^verbatim>\<open>get_status\<close> then reports), a proposal made in squad A is stored with \<open>majority\<close>.
\<close>

theorem propose_commit_ignores_squad_mode:
  "map sq_consensus_mode (squads squad_A_unanimous) = [''unanimous'']
   \<and> status_consensus_mode ''A'' squad_A_unanimous = ''unanimous''
   \<and> map (\<lambda>p. (cp_squad_id p, cp_consensus_mode p, timeout_seconds p))
        (commit_proposals (snd (propose_commit ''ann'' ''use tabs'' ''agent_nominated'' ''A''
           (''p1'', ''t2'') (''g1'', ''t2'') squad_A_unanimous)))
     = [(''A'', ''majority'', 300)]"
  by code_simp

subsection \<open>The database functions\<close>

lemma get_commit_id: "get_commit cid d = Some p \<Longrightarrow> cp_id p = cid"
  by (auto simp: get_commit_def find_Some_iff)

lemma get_commit_mem: "get_commit cid d = Some p \<Longrightarrow> p \<in> set (commit_proposals d)"
  by (auto simp: get_commit_def find_Some_iff)

lemma get_commit_None: "get_commit cid d = None \<longleftrightarrow> cid \<notin> cp_id ` set (commit_proposals d)"
  by (auto simp: get_commit_def find_None_iff)

lemma find_status_update:
  "find (\<lambda>r. cp_id r = cid)
     (map (\<lambda>r. if cp_id r = cid' then r\<lparr>cp_status := st, resolved_at := t\<rparr> else r) xs) =
   (if cid = cid'
    then map_option (\<lambda>r. r\<lparr>cp_status := st, resolved_at := t\<rparr>) (find (\<lambda>r. cp_id r = cid) xs)
    else find (\<lambda>r. cp_id r = cid) xs)"
  by (induction xs) auto

lemma get_commit_update:
  "get_commit cid (update_commit_status cid' st now d) =
     (if cid = cid'
      then map_option (\<lambda>r. r\<lparr>cp_status := st, resolved_at := Some now\<rparr>) (get_commit cid d)
      else get_commit cid d)"
  by (simp add: get_commit_def update_commit_status_def find_status_update)

lemma status_of_update:
  "status_of cid (update_commit_status cid' st now d) =
     (if cid = cid' then map_option (\<lambda>x. st) (status_of cid d) else status_of cid d)"
  by (simp add: status_of_def get_commit_update option.map_comp comp_def)

lemma find_append_new:
  "find P (xs @ [x]) = (case find P xs of Some y \<Rightarrow> Some y | None \<Rightarrow> if P x then Some x else None)"
  by (induction xs) auto

lemma returning_fst:
  "fst (returning r x) = (case fst x of Raised e \<Rightarrow> Raised e | Returned u \<Rightarrow> Returned r)"
  by (cases x) (auto simp: returning_def split: outcome.splits)

lemma returning_snd: "snd (returning r x) = snd x"
  by (cases x) (auto simp: returning_def split: outcome.splits)

subsection \<open>Resolving a proposal\<close>

lemma resolve_commit_fst:
  "fst (resolve_commit cid st a sq now rst s) =
     (if fst rst \<in> msg_id ` set (messages s) then Raised IntegrityError else Returned ())"
  by (simp add: resolve_commit_def add_message_def update_commit_status_def Let_def bot_message_def)

lemma resolve_commit_proposals:
  "commit_proposals (snd (resolve_commit cid st a sq now rst s)) =
     commit_proposals (update_commit_status cid st now s)"
  by (simp add: resolve_commit_def add_message_def update_commit_status_def Let_def broadcast_def)

lemma resolve_commit_frame:
  "members (snd (resolve_commit cid st a sq now rst s)) = members s"
  "votes (snd (resolve_commit cid st a sq now rst s)) = votes s"
  "context_entries (snd (resolve_commit cid st a sq now rst s)) = context_entries s"
  "squads (snd (resolve_commit cid st a sq now rst s)) = squads s"
  "consensus_mode (snd (resolve_commit cid st a sq now rst s)) = consensus_mode s"
  by (simp_all add: resolve_commit_def add_message_def update_commit_status_def Let_def broadcast_def)

lemma resolve_commit_messages:
  "messages (snd (resolve_commit cid st a sq now rst s)) =
     (if fst rst \<in> msg_id ` set (messages s) then messages s
      else messages s @ [bot_message rst ''orchestrator'' a sq])"
  by (simp add: resolve_commit_def add_message_def update_commit_status_def Let_def broadcast_def
      bot_message_def)

lemma resolve_commit_events:
  "events (snd (resolve_commit cid st a sq now rst s)) =
     (if fst rst \<in> msg_id ` set (messages s) then events s
      else events s @
        [\<lparr>ev_type = ''new_message'', ev_data = MessageData (bot_message rst ''orchestrator'' a sq),
          ev_squad_id = sq\<rparr>,
         \<lparr>ev_type = ''commit_resolved'', ev_data = ResolvedData cid st, ev_squad_id = sq\<rparr>])"
  by (simp add: resolve_commit_def add_message_def update_commit_status_def Let_def broadcast_def
      bot_message_def)

lemma resolve_commit_status:
  "status_of c (snd (resolve_commit cid st a sq now rst s)) =
     (if c = cid then map_option (\<lambda>x. st) (status_of c s) else status_of c s)"
proof -
  have "status_of c (snd (resolve_commit cid st a sq now rst s)) =
        status_of c (update_commit_status cid st now s)"
    by (simp add: status_of_def get_commit_def resolve_commit_proposals)
  then show ?thesis by (simp add: status_of_update)
qed

subsection \<open>Committing to the context\<close>

lemma commit_to_context_fst:
  "fst (commit_to_context p sq est now rst s) =
     (if fst est \<in> ce_id ` set (context_entries s) \<or> fst rst \<in> msg_id ` set (messages s)
      then Raised IntegrityError else Returned ())"
  by (simp add: commit_to_context_def add_context_entry_def resolve_commit_def add_message_def
      update_commit_status_def Let_def bot_message_def)

lemma commit_to_context_entries:
  "context_entries (snd (commit_to_context p sq est now rst s)) =
     (if fst est \<in> ce_id ` set (context_entries s) then context_entries s
      else context_entries s @ [committed_entry p sq est s])"
  by (simp add: commit_to_context_def add_context_entry_def resolve_commit_def add_message_def
      update_commit_status_def Let_def bot_message_def broadcast_def committed_entry_def)

lemma commit_to_context_proposals:
  "commit_proposals (snd (commit_to_context p sq est now rst s)) =
     (if fst est \<in> ce_id ` set (context_entries s) then commit_proposals s
      else commit_proposals (update_commit_status (cp_id p) ''approved'' now s))"
  by (simp add: commit_to_context_def add_context_entry_def resolve_commit_def add_message_def
      update_commit_status_def Let_def bot_message_def broadcast_def)

lemma commit_to_context_frame:
  "members (snd (commit_to_context p sq est now rst s)) = members s"
  "votes (snd (commit_to_context p sq est now rst s)) = votes s"
  "squads (snd (commit_to_context p sq est now rst s)) = squads s"
  "consensus_mode (snd (commit_to_context p sq est now rst s)) = consensus_mode s"
  by (simp_all add: commit_to_context_def add_context_entry_def resolve_commit_def add_message_def
      update_commit_status_def Let_def bot_message_def broadcast_def)

lemma commit_to_context_messages:
  "messages (snd (commit_to_context p sq est now rst s)) =
     (if fst est \<in> ce_id ` set (context_entries s) \<or> fst rst \<in> msg_id ` set (messages s)
      then messages s
      else messages s @ [bot_message rst ''orchestrator'' (committed_text p sq s) sq])"
  by (simp add: commit_to_context_def add_context_entry_def resolve_commit_def add_message_def
      update_commit_status_def Let_def bot_message_def broadcast_def committed_text_def)

lemma commit_to_context_events:
  "events (snd (commit_to_context p sq est now rst s)) =
     (if fst est \<in> ce_id ` set (context_entries s) \<or> fst rst \<in> msg_id ` set (messages s)
      then events s
      else events s @
        [\<lparr>ev_type = ''new_message'',
          ev_data = MessageData (bot_message rst ''orchestrator'' (committed_text p sq s) sq),
          ev_squad_id = sq\<rparr>,
         \<lparr>ev_type = ''commit_resolved'', ev_data = ResolvedData (cp_id p) ''approved'',
          ev_squad_id = sq\<rparr>,
         \<lparr>ev_type = ''context_updated'', ev_data = EntryData (committed_entry p sq est s),
          ev_squad_id = sq\<rparr>])"
  by (simp add: commit_to_context_def add_context_entry_def resolve_commit_def add_message_def
      update_commit_status_def Let_def bot_message_def broadcast_def committed_text_def
      committed_entry_def)

lemma commit_to_context_status:
  "status_of c (snd (commit_to_context p sq est now rst s)) =
     (if c = cp_id p \<and> fst est \<notin> ce_id ` set (context_entries s)
      then map_option (\<lambda>x. ''approved'') (status_of c s) else status_of c s)"
proof -
  have "status_of c (snd (commit_to_context p sq est now rst s)) =
        (if fst est \<in> ce_id ` set (context_entries s) then status_of c s
         else status_of c (update_commit_status (cp_id p) ''approved'' now s))"
    by (simp add: status_of_def get_commit_def commit_to_context_proposals)
  then show ?thesis by (simp add: status_of_update)
qed

subsection \<open>Evaluating the consensus\<close>

lemma evaluate_veto:
  "human_rejections cid s \<noteq> [] \<Longrightarrow>
   evaluate_consensus cid sq est now rst s =
     returning (Resolved ''rejected'' ''human_veto'')
       (resolve_commit cid ''rejected''
          (''Commit `'' @ cid @ ''` **rejected** - human veto by '' @
           join_comma (map voter_name (human_rejections cid s))) sq now rst s)"
  by (simp add: evaluate_consensus_def human_rejections_def Let_def)

lemma evaluate_missing:
  "human_rejections cid s = [] \<Longrightarrow> get_commit cid s = None \<Longrightarrow>
   evaluate_consensus cid sq est now rst s = (Raised AttributeError, s)"
  by (simp add: evaluate_consensus_def human_rejections_def Let_def)

lemma evaluate_unanimous:
  "human_rejections cid s = [] \<Longrightarrow> get_commit cid s = Some p \<Longrightarrow>
   cp_consensus_mode p = ''unanimous'' \<Longrightarrow>
   evaluate_consensus cid sq est now rst s =
     (if 0 < rejections cid s then
        returning (Resolved ''rejected'' ''not_unanimous'')
          (resolve_commit cid ''rejected''
             (''Commit `'' @ cid @ ''` **rejected** (unanimous required, got '' @
              str_nat (rejections cid s) @ '' rejection(s))'') sq now rst s)
      else if approvals cid s = total_eligible sq s then
        returning (Resolved ''approved'' ''unanimous'') (commit_to_context p sq est now rst s)
      else (Returned (Pending (total_voted cid s) (total_eligible sq s) (approvals cid s)
              (rejections cid s)), s))"
  by (simp add: evaluate_consensus_def human_rejections_def Let_def rejections_def approvals_def
      total_eligible_def total_voted_def)

lemma evaluate_majority:
  "human_rejections cid s = [] \<Longrightarrow> get_commit cid s = Some p \<Longrightarrow>
   cp_consensus_mode p = ''majority'' \<Longrightarrow>
   evaluate_consensus cid sq est now rst s =
     (if total_eligible sq s \<le> total_voted cid s then
        if total_eligible sq s < 2 * approvals cid s then
          returning (Resolved ''approved''
              (''majority ('' @ str_nat (approvals cid s) @ ''/'' @ str_nat (total_eligible sq s) @ '')''))
            (commit_to_context p sq est now rst s)
        else
          returning (Resolved ''rejected'' ''no_majority'')
            (resolve_commit cid ''rejected''
               (''Commit `'' @ cid @ ''` **rejected** ('' @ str_nat (approvals cid s) @ ''/'' @
                str_nat (total_eligible sq s) @ '' approved, majority needed)'') sq now rst s)
      else if total_eligible sq s < 2 * approvals cid s then
        returning (Resolved ''approved''
            (''early_majority ('' @ str_nat (approvals cid s) @ ''/'' @ str_nat (total_eligible sq s) @ '')''))
          (commit_to_context p sq est now rst s)
      else (Returned (Pending (total_voted cid s) (total_eligible sq s) (approvals cid s)
              (rejections cid s)), s))"
  by (simp add: evaluate_consensus_def human_rejections_def Let_def rejections_def approvals_def
      total_eligible_def total_voted_def)

lemma evaluate_no_objection:
  "human_rejections cid s = [] \<Longrightarrow> get_commit cid s = Some p \<Longrightarrow>
   cp_consensus_mode p = ''no_objection'' \<Longrightarrow>
   evaluate_consensus cid sq est now rst s =
     (if 0 < rejections cid s then
        returning (Resolved ''rejected'' ''objection_raised'')
          (resolve_commit cid ''rejected''
             (''Commit `'' @ cid @ ''` **rejected** (objection raised)'') sq now rst s)
      else (Returned (Pending (total_voted cid s) (total_eligible sq s) (approvals cid s)
              (rejections cid s)), s))"
  by (simp add: evaluate_consensus_def human_rejections_def Let_def rejections_def approvals_def
      total_eligible_def total_voted_def)

lemma evaluate_other_mode:
  "human_rejections cid s = [] \<Longrightarrow> get_commit cid s = Some p \<Longrightarrow>
   cp_consensus_mode p \<notin> {''unanimous'', ''majority'', ''no_objection''} \<Longrightarrow>
   evaluate_consensus cid sq est now rst s =
     (Returned (Pending (total_voted cid s) (total_eligible sq s) (approvals cid s)
        (rejections cid s)), s)"
  by (simp add: evaluate_consensus_def human_rejections_def Let_def rejections_def approvals_def
      total_eligible_def total_voted_def)

subsection \<open>Casting a vote\<close>

lemma after_cast_frame:
  "members (after_cast v msg sq s) = members s"
  "commit_proposals (after_cast v msg sq s) = commit_proposals s"
  "context_entries (after_cast v msg sq s) = context_entries s"
  "squads (after_cast v msg sq s) = squads s"
  "consensus_mode (after_cast v msg sq s) = consensus_mode s"
  "messages (after_cast v msg sq s) = messages s @ [msg\<lparr>msg_squad_id := sq\<rparr>]"
  "events (after_cast v msg sq s) = events s @
     [\<lparr>ev_type = ''new_message'', ev_data = MessageData msg, ev_squad_id = sq\<rparr>,
      \<lparr>ev_type = ''vote_cast'', ev_data = VoteData v, ev_squad_id = sq\<rparr>]"
  by (simp_all add: after_cast_def broadcast_def add_vote_def)

lemma after_cast_votes:
  "votes (after_cast v msg sq s) =
     filter (\<lambda>r. v_id r \<noteq> v_id v \<and> \<not> (v_commit_id r = v_commit_id v \<and> voter_id r = voter_id v))
       (votes s) @ [v\<lparr>v_squad_id := sq\<rparr>]"
  by (simp add: after_cast_def broadcast_def add_vote_def)

lemma after_cast_get_commit: "get_commit cid (after_cast v msg sq s) = get_commit cid s"
  by (simp add: get_commit_def after_cast_frame)

lemma after_cast_status: "status_of cid (after_cast v msg sq s) = status_of cid s"
  by (simp add: status_of_def after_cast_get_commit)

lemma after_cast_active: "get_active_members q (after_cast v msg sq s) = get_active_members q s"
  by (simp add: get_active_members_def after_cast_frame)

lemma after_cast_votes_for:
  "get_votes_for_commit (v_commit_id v) (after_cast v msg sq s) =
     filter (\<lambda>r. v_id r \<noteq> v_id v \<and> voter_id r \<noteq> voter_id v)
       (get_votes_for_commit (v_commit_id v) s) @ [v\<lparr>v_squad_id := sq\<rparr>]"
proof -
  have "filter (\<lambda>r. v_commit_id r = c) (filter (\<lambda>r. v_id r \<noteq> i \<and> \<not> (v_commit_id r = c \<and> voter_id r = w)) xs)
      = filter (\<lambda>r. v_id r \<noteq> i \<and> voter_id r \<noteq> w) (filter (\<lambda>r. v_commit_id r = c) xs)"
    for c i w and xs :: "vote_rec list"
    by (induction xs) auto
  then show ?thesis
    by (simp add: get_votes_for_commit_def after_cast_votes)
qed

lemma add_vote_messages: "messages (add_vote v sq s) = messages s"
  by (simp add: add_vote_def)

lemma vote_accepted:
  assumes "get_member_by_name voter sq s = Some m" and "get_commit cid s = Some p"
    and "cp_status p = ''pending''" and "ch \<in> {''approve'', ''reject'', ''abstain''}"
    and "fst gst \<notin> msg_id ` set (messages s)"
  shows "vote voter cid ch ov sq vst gst est now rst s =
     (case evaluate_consensus cid sq est now rst
             (after_cast (cast_vote voter cid ch ov sq vst m) (vote_message voter cid ch ov sq gst) sq s) of
        (Raised e, s3) \<Rightarrow> (Raised e, s3)
      | (Returned r, s3) \<Rightarrow> (Returned (Voted (cast_vote voter cid ch ov sq vst m) r), s3))"
proof -
  have id: "msg_id (vote_message voter cid ch ov sq gst) = fst gst"
    by (simp add: vote_message_def bot_message_def)
  show ?thesis
    unfolding vote_def Let_def cast_vote_def[symmetric] vote_message_def[symmetric]
    using assms by (simp add: add_message_def after_cast_def id add_vote_messages)
qed

lemma vote_accepted_fst:
  assumes "get_member_by_name voter sq s = Some m" and "get_commit cid s = Some p"
    and "cp_status p = ''pending''" and "ch \<in> {''approve'', ''reject'', ''abstain''}"
    and "fst gst \<notin> msg_id ` set (messages s)"
  shows "fst (vote voter cid ch ov sq vst gst est now rst s) =
     (case fst (evaluate_consensus cid sq est now rst
             (after_cast (cast_vote voter cid ch ov sq vst m) (vote_message voter cid ch ov sq gst) sq s)) of
        Raised e \<Rightarrow> Raised e
      | Returned r \<Rightarrow> Returned (Voted (cast_vote voter cid ch ov sq vst m) r))"
  by (simp add: vote_accepted[OF assms] split: prod.splits outcome.splits)

lemma vote_accepted_snd:
  assumes "get_member_by_name voter sq s = Some m" and "get_commit cid s = Some p"
    and "cp_status p = ''pending''" and "ch \<in> {''approve'', ''reject'', ''abstain''}"
    and "fst gst \<notin> msg_id ` set (messages s)"
  shows "snd (vote voter cid ch ov sq vst gst est now rst s) =
     snd (evaluate_consensus cid sq est now rst
             (after_cast (cast_vote voter cid ch ov sq vst m) (vote_message voter cid ch ov sq gst) sq s))"
  by (simp add: vote_accepted[OF assms] split: prod.splits outcome.splits)

subsection \<open>The human veto\<close>

text \<open>
  C1. For a pending proposal in any consensus mode, a \<open>reject\<close> vote cast by a member with
  \<open>is_human_override\<close> resolves the proposal: the answer carries the status \<open>rejected\<close>
  with the reason \<open>human_veto\<close>, the stored status is \<open>rejected\<close> and one
  \<^verbatim>\<open>commit_resolved\<close> event is raised. Nothing is assumed of the mode or of the votes
  already stored, so this holds after every other member has approved. The ids drawn for
  the two announcements are new.
\<close>

theorem human_veto_rejects:
  assumes "get_member_by_name voter sq s \<noteq> None"
    and "status_of cid s = Some ''pending''"
    and "fst gst \<notin> msg_id ` set (messages s)"
    and "fst rst \<notin> msg_id ` set (messages s)"
    and "fst rst \<noteq> fst gst"
  shows "consensus_of (fst (vote voter cid ''reject'' True sq vst gst est now rst s)) =
           Some (Resolved ''rejected'' ''human_veto'')
       \<and> status_of cid (snd (vote voter cid ''reject'' True sq vst gst est now rst s)) =
           Some ''rejected''
       \<and> resolved_events cid (snd (vote voter cid ''reject'' True sq vst gst est now rst s)) =
           resolved_events cid s @
           [\<lparr>ev_type = ''commit_resolved'', ev_data = ResolvedData cid ''rejected'', ev_squad_id = sq\<rparr>]"
proof -
  from assms(1) obtain m where m: "get_member_by_name voter sq s = Some m" by auto
  from assms(2) obtain p where p: "get_commit cid s = Some p" and pend: "cp_status p = ''pending''"
    by (auto simp: status_of_def)
  define v where "v = cast_vote voter cid ''reject'' True sq vst m"
  define s1 where "s1 = after_cast v (vote_message voter cid ''reject'' True sq gst) sq s"
  have vc: "v_commit_id v = cid" by (simp add: v_def cast_vote_def)
  have "human_rejections cid s1 \<noteq> []"
    using after_cast_votes_for[of v _ sq s]
    by (simp add: human_rejections_def s1_def vc) (simp add: v_def cast_vote_def)
  then have ev: "evaluate_consensus cid sq est now rst s1 =
      returning (Resolved ''rejected'' ''human_veto'')
        (resolve_commit cid ''rejected''
          (''Commit `'' @ cid @ ''` **rejected** - human veto by '' @
           join_comma (map voter_name (human_rejections cid s1))) sq now rst s1)"
    by (rule evaluate_veto)
  have fresh: "fst rst \<notin> msg_id ` set (messages s1)"
    using assms(4,5) by (simp add: s1_def after_cast_frame vote_message_def bot_message_def)
  have ch: "''reject'' \<in> {''approve'', ''reject'', ''abstain''}" by simp
  note acc1 = vote_accepted_fst[OF m p pend ch assms(3), of True vst est now rst, folded v_def, folded s1_def]
  note acc2 = vote_accepted_snd[OF m p pend ch assms(3), of True vst est now rst, folded v_def, folded s1_def]
  have st1: "status_of cid s1 = Some ''pending''"
    using assms(2) by (simp add: s1_def after_cast_status)
  have a: "consensus_of (fst (vote voter cid ''reject'' True sq vst gst est now rst s)) =
           Some (Resolved ''rejected'' ''human_veto'')"
    by (simp add: acc1 ev returning_fst resolve_commit_fst fresh consensus_of_def)
  have b: "status_of cid (snd (vote voter cid ''reject'' True sq vst gst est now rst s)) =
           Some ''rejected''"
    by (simp add: acc2 ev returning_snd resolve_commit_status st1)
  have c: "resolved_events cid (snd (vote voter cid ''reject'' True sq vst gst est now rst s)) =
           resolved_events cid s @
           [\<lparr>ev_type = ''commit_resolved'', ev_data = ResolvedData cid ''rejected'', ev_squad_id = sq\<rparr>]"
    using fresh
    by (simp add: acc2 ev returning_snd resolve_commit_events resolved_events_def)
       (simp add: s1_def after_cast_frame)
  from a b c show ?thesis by simp
qed

theorem human_veto_rejects_witness:
  "get_member_by_name ''cy'' ''A'' two_approvals \<noteq> None
   \<and> status_of ''p1'' two_approvals = Some ''pending''
   \<and> ''g7'' \<notin> msg_id ` set (messages two_approvals)
   \<and> ''r3'' \<notin> msg_id ` set (messages two_approvals)
   \<and> approvals ''p1'' two_approvals = 2
   \<and> consensus_of (fst (vote ''cy'' ''p1'' ''reject'' True ''A'' (''v3'', ''t7'') (''g7'', ''t7'')
        (''e3'', ''t7'') ''t7'' (''r3'', ''t7'') two_approvals)) =
       Some (Resolved ''rejected'' ''human_veto'')
   \<and> status_of ''p1'' (snd (vote ''cy'' ''p1'' ''reject'' True ''A'' (''v3'', ''t7'') (''g7'', ''t7'')
        (''e3'', ''t7'') ''t7'' (''r3'', ''t7'') two_approvals)) = Some ''rejected''"
proof -
  have h1: "get_member_by_name ''cy'' ''A'' two_approvals \<noteq> None" by code_simp
  have h2: "status_of ''p1'' two_approvals = Some ''pending''" by code_simp
  have h3: "fst (''g7'', ''t7'') \<notin> msg_id ` set (messages two_approvals)" by code_simp
  have h4: "fst (''r3'', ''t7'') \<notin> msg_id ` set (messages two_approvals)" by code_simp
  have h5: "fst (''r3'', ''t7'') \<noteq> fst (''g7'', ''t7'')" by simp
  have h6: "approvals ''p1'' two_approvals = 2" by code_simp
  from human_veto_rejects[OF h1 h2 h3 h4 h5, of "(''v3'', ''t7'')" "(''e3'', ''t7'')" "''t7''"]
  show ?thesis using h1 h2 h3 h4 h6 by simp
qed

subsection \<open>The majority rule\<close>

lemma everyone_voted_count:
  assumes "table_constraints s" and "everyone_voted sq cid s"
  shows "total_eligible sq s \<le> total_voted cid s"
proof -
  let ?act = "get_active_members sq s" and ?vs = "get_votes_for_commit cid s"
  have "distinct (map m_id (members s))" using assms(1) by (simp add: table_constraints_def)
  then have "distinct (map m_id ?act)"
    by (simp add: get_active_members_def distinct_map_filter)
  then have "length ?act = card (m_id ` set ?act)"
    by (metis distinct_card length_map set_map)
  also have "m_id ` set ?act \<subseteq> voter_id ` set ?vs"
    using assms(2) by (auto simp: everyone_voted_def list_all_iff)
  then have "card (m_id ` set ?act) \<le> card (voter_id ` set ?vs)"
    by (simp add: card_mono)
  also have "card (voter_id ` set ?vs) \<le> length ?vs"
    by (metis card_length length_map set_map)
  finally show ?thesis by (simp add: total_eligible_def total_voted_def)
qed

lemma mode_ofD: "mode_of cid s = Some m \<Longrightarrow> \<exists>p. get_commit cid s = Some p \<and> cp_consensus_mode p = m"
  by (auto simp: mode_of_def)

lemma mode_status: "mode_of cid s = Some m \<Longrightarrow> \<exists>st. status_of cid s = Some st"
  by (auto simp: mode_of_def status_of_def)

text \<open>
  C2. In majority mode, when no rejection carries the human override (the veto is
  checked first): once every active member has a vote stored, the evaluation answers
  \<open>approved\<close> when the approvals strictly exceed half the active members counted at the
  evaluation, and \<open>rejected\<close> with the reason \<open>no_majority\<close> otherwise, an
  exact half included; and whenever the approvals strictly exceed half, it answers
  \<open>approved\<close>, all votes in or not. The stored status follows the answer. The ids drawn
  for the entry and the announcement are new.
\<close>

theorem majority_rule:
  assumes "mode_of cid s = Some ''majority''"
    and "human_rejections cid s = []"
    and "table_constraints s"
    and "fst est \<notin> ce_id ` set (context_entries s)"
    and "fst rst \<notin> msg_id ` set (messages s)"
  shows "(everyone_voted sq cid s \<longrightarrow>
            fst (evaluate_consensus cid sq est now rst s) =
              Returned (if total_eligible sq s < 2 * approvals cid s
                        then Resolved ''approved''
                               (tally_text ''majority'' (approvals cid s) (total_eligible sq s))
                        else Resolved ''rejected'' ''no_majority'')
          \<and> status_of cid (snd (evaluate_consensus cid sq est now rst s)) =
              Some (if total_eligible sq s < 2 * approvals cid s then ''approved'' else ''rejected''))
       \<and> (total_eligible sq s < 2 * approvals cid s \<longrightarrow>
            fst (evaluate_consensus cid sq est now rst s) =
              Returned (Resolved ''approved''
                 (tally_text (if total_eligible sq s \<le> total_voted cid s then ''majority''
                              else ''early_majority'') (approvals cid s) (total_eligible sq s)))
          \<and> status_of cid (snd (evaluate_consensus cid sq est now rst s)) = Some ''approved'')"
proof -
  from mode_ofD[OF assms(1)] obtain p where p: "get_commit cid s = Some p"
    and m: "cp_consensus_mode p = ''majority''" by auto
  have id: "cp_id p = cid" using p by (rule get_commit_id)
  obtain st where st: "status_of cid s = Some st" using mode_status[OF assms(1)] by auto
  note ev = evaluate_majority[OF assms(2) p m, of sq est now rst]
  have early: "total_eligible sq s < 2 * approvals cid s \<Longrightarrow>
      fst (evaluate_consensus cid sq est now rst s) =
        Returned (Resolved ''approved''
           (tally_text (if total_eligible sq s \<le> total_voted cid s then ''majority''
                        else ''early_majority'') (approvals cid s) (total_eligible sq s)))
      \<and> status_of cid (snd (evaluate_consensus cid sq est now rst s)) = Some ''approved''"
    using assms(4,5) st
    by (simp add: ev returning_fst returning_snd commit_to_context_fst commit_to_context_status
        id tally_text_def)
  have full: "everyone_voted sq cid s \<Longrightarrow>
      fst (evaluate_consensus cid sq est now rst s) =
        Returned (if total_eligible sq s < 2 * approvals cid s
                  then Resolved ''approved''
                         (tally_text ''majority'' (approvals cid s) (total_eligible sq s))
                  else Resolved ''rejected'' ''no_majority'')
      \<and> status_of cid (snd (evaluate_consensus cid sq est now rst s)) =
          Some (if total_eligible sq s < 2 * approvals cid s then ''approved'' else ''rejected'')"
  proof -
    assume "everyone_voted sq cid s"
    then have le: "total_eligible sq s \<le> total_voted cid s"
      using assms(3) by (simp add: everyone_voted_count)
    show ?thesis
      using assms(4,5) st le
      by (simp add: ev returning_fst returning_snd commit_to_context_fst commit_to_context_status
          resolve_commit_fst resolve_commit_status id tally_text_def)
  qed
  from early full show ?thesis by blast
qed

theorem majority_rule_witness:
  "mode_of ''p1'' four_of_four = Some ''majority''
   \<and> status_of ''p1'' four_of_four = Some ''pending''
   \<and> human_rejections ''p1'' four_of_four = []
   \<and> table_constraints four_of_four
   \<and> everyone_voted ''A'' ''p1'' four_of_four
   \<and> total_eligible ''A'' four_of_four = 4 \<and> approvals ''p1'' four_of_four = 2
   \<and> fst (evaluate_consensus ''p1'' ''A'' (''e4'', ''t9'') ''t9'' (''r4'', ''t9'') four_of_four) =
       Returned (Resolved ''rejected'' ''no_majority'')
   \<and> status_of ''p1''
       (snd (evaluate_consensus ''p1'' ''A'' (''e4'', ''t9'') ''t9'' (''r4'', ''t9'') four_of_four)) =
       Some ''rejected''"
proof -
  have h1: "mode_of ''p1'' four_of_four = Some ''majority''" by code_simp
  have h2: "human_rejections ''p1'' four_of_four = []" by code_simp
  have h3: "table_constraints four_of_four" by code_simp
  have h4: "fst (''e4'', ''t9'') \<notin> ce_id ` set (context_entries four_of_four)" by code_simp
  have h5: "fst (''r4'', ''t9'') \<notin> msg_id ` set (messages four_of_four)" by code_simp
  have h6: "everyone_voted ''A'' ''p1'' four_of_four" by code_simp
  have h7: "total_eligible ''A'' four_of_four = 4" by code_simp
  have h8: "approvals ''p1'' four_of_four = 2" by code_simp
  have h9: "status_of ''p1'' four_of_four = Some ''pending''" by code_simp
  from majority_rule[OF h1 h2 h3 h4 h5, of "''A''" "''t9''"]
  show ?thesis using h1 h2 h3 h6 h7 h8 h9 by simp
qed

subsection \<open>The unanimous rule\<close>

text \<open>
  C3. In unanimous mode any stored rejection resolves the proposal \<open>rejected\<close>, with the
  reason \<open>not_unanimous\<close> (with \<open>human_veto\<close> when a rejection carries the human
  override, the veto being checked first). Without a rejection it resolves \<open>approved\<close>
  exactly when the approvals equal the number of active members counted in the state of
  the evaluation; otherwise the evaluation answers pending and leaves the state as it
  was, so abstentions, which are neither approvals nor rejections, leave a proposal
  pending however often it is evaluated. The ids drawn for the entry and the
  announcement are new.
\<close>

theorem unanimous_rule:
  assumes "mode_of cid s = Some ''unanimous''"
    and "fst est \<notin> ce_id ` set (context_entries s)"
    and "fst rst \<notin> msg_id ` set (messages s)"
  shows "(0 < rejections cid s \<longrightarrow>
            fst (evaluate_consensus cid sq est now rst s) =
              Returned (Resolved ''rejected''
                (if human_rejections cid s = [] then ''not_unanimous'' else ''human_veto''))
          \<and> status_of cid (snd (evaluate_consensus cid sq est now rst s)) = Some ''rejected'')
       \<and> (rejections cid s = 0 \<and> approvals cid s = total_eligible sq s \<longrightarrow>
            fst (evaluate_consensus cid sq est now rst s) =
              Returned (Resolved ''approved'' ''unanimous'')
          \<and> status_of cid (snd (evaluate_consensus cid sq est now rst s)) = Some ''approved'')
       \<and> (rejections cid s = 0 \<and> approvals cid s \<noteq> total_eligible sq s \<longrightarrow>
            evaluate_consensus cid sq est now rst s =
              (Returned (Pending (total_voted cid s) (total_eligible sq s) (approvals cid s) 0), s))"
proof -
  from mode_ofD[OF assms(1)] obtain p where p: "get_commit cid s = Some p"
    and m: "cp_consensus_mode p = ''unanimous''" by auto
  have id: "cp_id p = cid" using p by (rule get_commit_id)
  obtain st where st: "status_of cid s = Some st" using mode_status[OF assms(1)] by auto
  have no_rej: "rejections cid s = 0 \<Longrightarrow> human_rejections cid s = []"
    by (auto simp: rejections_def human_rejections_def filter_empty_conv)
  show ?thesis
  proof (cases "human_rejections cid s = []")
    case True
    note ev = evaluate_unanimous[OF True p m, of sq est now rst]
    show ?thesis
      using assms(2,3) st True
      by (simp add: ev returning_fst returning_snd commit_to_context_fst commit_to_context_status
          resolve_commit_fst resolve_commit_status id)
  next
    case False
    then have rej: "0 < rejections cid s" using no_rej by auto
    note ev = evaluate_veto[OF False, of sq est now rst]
    show ?thesis
      using assms(3) st False rej
      by (simp add: ev returning_fst returning_snd resolve_commit_fst resolve_commit_status)
  qed
qed

theorem unanimous_rule_witness:
  "mode_of ''p1'' two_and_abstain = Some ''unanimous''
   \<and> status_of ''p1'' two_and_abstain = Some ''pending''
   \<and> map choice (get_votes_for_commit ''p1'' two_and_abstain) = [''approve'', ''approve'', ''abstain'']
   \<and> rejections ''p1'' two_and_abstain = 0
   \<and> approvals ''p1'' two_and_abstain = 2 \<and> total_eligible ''A'' two_and_abstain = 3
   \<and> evaluate_consensus ''p1'' ''A'' (''e3'', ''t7'') ''t7'' (''r3'', ''t7'') two_and_abstain =
       (Returned (Pending 3 3 2 0), two_and_abstain)
   \<and> consensus_of (fst (vote ''cy'' ''p1'' ''abstain'' False ''A'' (''v3'', ''t7'') (''g7'', ''t7'')
        (''e3'', ''t7'') ''t7'' (''r3'', ''t7'') two_approvals)) = Some (Pending 3 3 2 0)
   \<and> status_of ''p1'' (snd (vote ''cy'' ''p1'' ''abstain'' False ''A'' (''v3'', ''t7'') (''g7'', ''t7'')
        (''e3'', ''t7'') ''t7'' (''r3'', ''t7'') two_approvals)) = Some ''pending''"
proof -
  have v1: "consensus_of (fst (vote ''cy'' ''p1'' ''abstain'' False ''A'' (''v3'', ''t7'') (''g7'', ''t7'')
        (''e3'', ''t7'') ''t7'' (''r3'', ''t7'') two_approvals)) = Some (Pending 3 3 2 0)" by code_simp
  have v2: "status_of ''p1'' (snd (vote ''cy'' ''p1'' ''abstain'' False ''A'' (''v3'', ''t7'') (''g7'', ''t7'')
        (''e3'', ''t7'') ''t7'' (''r3'', ''t7'') two_approvals)) = Some ''pending''" by code_simp
  have h1: "mode_of ''p1'' two_and_abstain = Some ''unanimous''" by code_simp
  have h2: "fst (''e3'', ''t7'') \<notin> ce_id ` set (context_entries two_and_abstain)" by code_simp
  have h3: "fst (''r3'', ''t7'') \<notin> msg_id ` set (messages two_and_abstain)" by code_simp
  have h4: "rejections ''p1'' two_and_abstain = 0" by code_simp
  have h5: "approvals ''p1'' two_and_abstain = 2" by code_simp
  have h6: "total_eligible ''A'' two_and_abstain = 3" by code_simp
  have h7: "total_voted ''p1'' two_and_abstain = 3" by code_simp
  have h8: "status_of ''p1'' two_and_abstain = Some ''pending''" by code_simp
  have h9: "map choice (get_votes_for_commit ''p1'' two_and_abstain) =
              [''approve'', ''approve'', ''abstain'']" by code_simp
  from unanimous_rule[OF h1 h2 h3, of "''A''" "''t7''"]
  show ?thesis using h1 h4 h5 h6 h7 h8 h9 v1 v2 by simp
qed

end
